theory Spec2Isabelle
  imports Complex_Main "HOL-Library.AList"
begin

section \<open>Data model\<close>

text \<open>
  A Python \<open>str\<close> is a finite sequence of Unicode code points, and \<open>len\<close> counts code
  points. A character is therefore modelled by its code point (a natural number, which is
  what \<open>ord\<close> returns) and a string by the list of its code points. ASCII literals of the
  source are written as HOL string literals and converted by \<open>cps\<close>.
\<close>

type_synonym codepoint = nat
type_synonym pystr = "codepoint list"

definition cps :: "string \<Rightarrow> pystr" where
  "cps s = map of_char s"

definition ord :: "codepoint \<Rightarrow> int" where
  "ord c = int c"

text \<open>
  The dictionaries of the source have string keys and integer values and keep the order in
  which the keys were inserted: an association list. Reading a missing key raises
  \<open>KeyError\<close>; \<open>d[k] += 1\<close> on a key that is present rewrites its entry in place.
\<close>

type_synonym pydict = "(string \<times> int) list"

datatype py_error = KeyError string | OverflowError

definition getitem :: "pydict \<Rightarrow> string \<Rightarrow> py_error + int" where
  "getitem d k = (case map_of d k of None \<Rightarrow> Inl (KeyError k) | Some v \<Rightarrow> Inr v)"

definition dict_incr :: "string \<Rightarrow> pydict \<Rightarrow> pydict" where
  "dict_incr k d = AList.map_entry k (\<lambda>v. v + 1) d"

definition bind :: "py_error + 'a \<Rightarrow> ('a \<Rightarrow> py_error + 'b) \<Rightarrow> py_error + 'b" where
  "bind m f = (case m of Inl e \<Rightarrow> Inl e | Inr x \<Rightarrow> f x)"

text \<open>\<open>range(n)\<close> for an integer \<open>n\<close>: empty when \<open>n\<close> is zero or negative.\<close>

definition py_range :: "int \<Rightarrow> nat list" where
  "py_range n = [0 ..< nat n]"

text \<open>The slice \<open>s[i:j]\<close> for indices \<open>0 \<le> i \<le> j\<close>.\<close>

definition slice :: "pystr \<Rightarrow> nat \<Rightarrow> nat \<Rightarrow> pystr" where
  "slice s i j = take (j - i) (drop i s)"

text \<open>\<open>pat in s\<close> on strings: \<open>pat\<close> occurs in \<open>s\<close> as a contiguous substring.\<close>

fun startswith :: "pystr \<Rightarrow> pystr \<Rightarrow> bool" where
  "startswith s [] = True"
| "startswith [] (x # xs) = False"
| "startswith (y # ys) (x # xs) = (y = x \<and> startswith ys xs)"

fun str_in :: "pystr \<Rightarrow> pystr \<Rightarrow> bool" where
  "str_in pat [] = (pat = [])"
| "str_in pat (c # s) = (startswith (c # s) pat \<or> str_in pat s)"

text \<open>
  \<open>str.lower()\<close>. On a string of ASCII characters only it maps \<open>A\<close>..\<open>Z\<close> to
  \<open>a\<close>..\<open>z\<close> and leaves every other character alone. On any other string the result comes
  from the Unicode tables of the Python runtime, which are not part of this program: it is
  the parameter \<open>ul\<close>, and every statement below holds for all \<open>ul\<close>.
\<close>

definition ascii_lower :: "codepoint \<Rightarrow> codepoint" where
  "ascii_lower c = (if 65 \<le> c \<and> c \<le> 90 then c + 32 else c)"

definition lower :: "(pystr \<Rightarrow> pystr) \<Rightarrow> pystr \<Rightarrow> pystr" where
  "lower ul s = (if list_all (\<lambda>c. c < 128) s then map ascii_lower s else ul s)"

subsection \<open>The constants of the \<open>string\<close> module\<close>

definition ascii_lowercase :: pystr where
  "ascii_lowercase = cps ''abcdefghijklmnopqrstuvwxyz''"

definition ascii_uppercase :: pystr where
  "ascii_uppercase = cps ''ABCDEFGHIJKLMNOPQRSTUVWXYZ''"

definition ascii_letters :: pystr where
  "ascii_letters = ascii_lowercase @ ascii_uppercase"

definition digits :: pystr where
  "digits = cps ''0123456789''"

definition punctuation :: pystr where
  "punctuation = cps (''!'' @ [CHR 0x22] @ ''#$%&'' @ [CHR 0x27] @ ''()*+,-./:;<=>?@[''
      @ [CHR 0x5C] @ '']^_`{|}~'')"

section \<open>Password analysis functions\<close>

subsection \<open>\<open>analyze_entropy\<close>\<close>

text \<open>
  The local variable \<open>char_set_size\<close> of \<open>analyze_entropy\<close>, with its four updates and
  its fallback, is a function of its own here. It is integer arithmetic;
  \<open>any(c in X for c in password)\<close> is \<open>list_ex\<close>. The entropy itself is a Python float:
  it is modelled by the real number that the float approximates, \<open>math.log2\<close> by the
  logarithm to base 2.
\<close>

definition char_set_size :: "pystr \<Rightarrow> nat" where
  "char_set_size password =
     (let char_set_size = 0;
          char_set_size = (if list_ex (\<lambda>c. c \<in> set ascii_lowercase) password
                           then char_set_size + 26 else char_set_size);
          char_set_size = (if list_ex (\<lambda>c. c \<in> set ascii_uppercase) password
                           then char_set_size + 26 else char_set_size);
          char_set_size = (if list_ex (\<lambda>c. c \<in> set digits) password
                           then char_set_size + 10 else char_set_size);
          char_set_size = (if list_ex (\<lambda>c. c \<in> set punctuation) password
                           then char_set_size + length punctuation else char_set_size);
          char_set_size = (if char_set_size = 0 then 10 else char_set_size)
      in char_set_size)"

definition analyze_entropy :: "pystr \<Rightarrow> real" where
  "analyze_entropy password =
     (if password = [] then 0
      else let entropy = log 2 (real (char_set_size password)) * real (length password)
           in entropy)"

subsection \<open>\<open>analyze_character_distribution\<close>\<close>

text \<open>\<open>sum(1 for c in password if c in X)\<close>.\<close>

definition count_in :: "pystr \<Rightarrow> pystr \<Rightarrow> int" where
  "count_in password X = sum_list [1. c \<leftarrow> password, c \<in> set X]"

definition count_not_in :: "pystr \<Rightarrow> pystr \<Rightarrow> int" where
  "count_not_in password X = sum_list [1. c \<leftarrow> password, c \<notin> set X]"

definition analyze_character_distribution :: "pystr \<Rightarrow> pydict" where
  "analyze_character_distribution password =
     [(''lowercase'', count_in password ascii_lowercase),
      (''uppercase'', count_in password ascii_uppercase),
      (''digits'', count_in password digits),
      (''special'', count_in password punctuation),
      (''other'', count_not_in password (ascii_letters @ digits @ punctuation))]"

subsection \<open>\<open>find_patterns\<close>\<close>

definition keyboard_rows :: "pystr list" where
  "keyboard_rows = [cps ''qwertyuiop'', cps ''asdfghjkl'', cps ''zxcvbnm'']"

definition common_words :: "pystr list" where
  "common_words = [cps ''password'', cps ''123456'', cps ''qwerty'', cps ''admin'',
     cps ''welcome'', cps ''login'', cps ''abc123'', cps ''letmein'', cps ''monkey'',
     cps ''football'']"

text \<open>The four loops of \<open>find_patterns\<close>, each threading the dictionary it updates.\<close>

definition scan_sequential :: "pystr \<Rightarrow> pydict \<Rightarrow> pydict" where
  "scan_sequential password patterns =
     fold (\<lambda>i patterns.
             if ord (password ! i) + 1 = ord (password ! (i + 1)) \<and>
                ord (password ! (i + 1)) + 1 = ord (password ! (i + 2))
             then dict_incr ''sequential_chars'' patterns else patterns)
          (py_range (int (length password) - 2)) patterns"

definition scan_repeated :: "pystr \<Rightarrow> pydict \<Rightarrow> pydict" where
  "scan_repeated password patterns =
     fold (\<lambda>i patterns.
             if password ! i = password ! (i + 1) \<and> password ! (i + 1) = password ! (i + 2)
             then dict_incr ''repeated_chars'' patterns else patterns)
          (py_range (int (length password) - 2)) patterns"

definition scan_row :: "(pystr \<Rightarrow> pystr) \<Rightarrow> pystr \<Rightarrow> pystr \<Rightarrow> pydict \<Rightarrow> pydict" where
  "scan_row ul password row patterns =
     fold (\<lambda>i patterns.
             let pattern = lower ul (slice row i (i + 3))
             in if str_in pattern (lower ul password)
                then dict_incr ''keyboard_patterns'' patterns else patterns)
          (py_range (int (length row) - 2)) patterns"

definition scan_keyboard :: "(pystr \<Rightarrow> pystr) \<Rightarrow> pystr \<Rightarrow> pydict \<Rightarrow> pydict" where
  "scan_keyboard ul password patterns =
     fold (\<lambda>row patterns. scan_row ul password row patterns) keyboard_rows patterns"

definition scan_common :: "(pystr \<Rightarrow> pystr) \<Rightarrow> pystr \<Rightarrow> pydict \<Rightarrow> pydict" where
  "scan_common ul password patterns =
     fold (\<lambda>word patterns.
             if str_in word (lower ul password)
             then dict_incr ''common_words'' patterns else patterns)
          common_words patterns"

definition find_patterns :: "(pystr \<Rightarrow> pystr) \<Rightarrow> pystr \<Rightarrow> pydict" where
  "find_patterns ul password =
     (let patterns = [(''sequential_chars'', 0), (''repeated_chars'', 0),
                      (''keyboard_patterns'', 0), (''common_words'', 0)];
          patterns = scan_sequential password patterns;
          patterns = scan_repeated password patterns;
          patterns = scan_keyboard ul password patterns;
          patterns = scan_common ul password patterns
      in patterns)"

subsection \<open>\<open>calculate_crack_time\<close>\<close>

text \<open>
  Entropy and seconds are Python floats (IEEE doubles), modelled by the real numbers they
  approximate, with one behaviour of the floats kept: \<open>2 ** entropy\<close> raises
  \<open>OverflowError\<close> when the power is beyond the largest double. The largest double is
  just below \<open>2 ^ 1024\<close> and no double lies strictly between \<open>1024 - 2 ^ -43\<close>
  and \<open>1024\<close>, so for a double exponent this happens exactly when \<open>1024 \<le> entropy\<close>.
  \<open>pow2\<close> is the expression \<open>2 ** entropy\<close>, \<open>select_unit\<close> the chain of
  \<open>if\<close>/\<open>elif\<close> on \<open>seconds\<close>, branch for branch.
\<close>

definition pow2 :: "real \<Rightarrow> py_error + real" where
  "pow2 entropy = (if 1024 \<le> entropy then Inl OverflowError else Inr (2 powr entropy))"

definition select_unit :: "real \<Rightarrow> real \<times> string" where
  "select_unit seconds =
     (if seconds < 60 then (seconds, ''seconds'')
      else if seconds < 3600 then (seconds / 60, ''minutes'')
      else if seconds < 86400 then (seconds / 3600, ''hours'')
      else if seconds < 31536000 then (seconds / 86400, ''days'')
      else if seconds < 31536000 * 100 then (seconds / 31536000, ''years'')
      else (seconds / 31536000, ''years''))"

definition calculate_crack_time :: "real \<Rightarrow> py_error + real \<times> string" where
  "calculate_crack_time entropy =
     (let guesses_per_second = 10000000000
      in bind (pow2 entropy) (\<lambda>guesses.
           let seconds = guesses / guesses_per_second
           in Inr (select_unit seconds)))"

subsection \<open>\<open>get_suggestions\<close>\<close>

definition get_suggestions :: "pystr \<Rightarrow> pydict \<Rightarrow> pydict \<Rightarrow> py_error + string list" where
  "get_suggestions password char_distribution patterns =
     (let suggestions = [] in
      if password = [] then Inr [''Enter a password to get suggestions'']
      else
      let suggestions = (if length password < 12
            then suggestions @ [''Make your password longer (aim for at least 12 characters)'']
            else suggestions) in
      bind (getitem char_distribution ''lowercase'') (\<lambda>v.
      let suggestions = (if v = 0 then suggestions @ [''Add lowercase letters'']
                         else suggestions) in
      bind (getitem char_distribution ''uppercase'') (\<lambda>v.
      let suggestions = (if v = 0 then suggestions @ [''Add uppercase letters'']
                         else suggestions) in
      bind (getitem char_distribution ''digits'') (\<lambda>v.
      let suggestions = (if v = 0 then suggestions @ [''Add numbers'']
                         else suggestions) in
      bind (getitem char_distribution ''special'') (\<lambda>v.
      let suggestions = (if v = 0
            then suggestions @ [''Add special characters (e.g., @, #, $, %)'']
            else suggestions) in
      bind (getitem patterns ''sequential_chars'') (\<lambda>v.
      let suggestions = (if v > 0
            then suggestions @ [''Avoid sequential characters (e.g., abc, 123)'']
            else suggestions) in
      bind (getitem patterns ''repeated_chars'') (\<lambda>v.
      let suggestions = (if v > 0
            then suggestions @ [''Avoid repeated characters (e.g., aaa, 111)'']
            else suggestions) in
      bind (getitem patterns ''keyboard_patterns'') (\<lambda>v.
      let suggestions = (if v > 0
            then suggestions @ [''Avoid keyboard patterns (e.g., qwerty, asdf)'']
            else suggestions) in
      bind (getitem patterns ''common_words'') (\<lambda>v.
      let suggestions = (if v > 0 then suggestions @ [''Avoid common words and patterns'']
                         else suggestions) in
      let suggestions = (if length suggestions = 0
            then suggestions @ [''Your password looks good! Remember to use different passwords for different accounts.'']
            else suggestions)
      in Inr suggestions)))))))))"

subsection \<open>Notions used to state the properties\<close>

text \<open>
  The set of recognised character classes present in a password, by the four tests of
  \<open>analyze_entropy\<close>.
\<close>

datatype char_class = Lowercase | Uppercase | Digit | Punctuation

definition classes_present :: "pystr \<Rightarrow> char_class set" where
  "classes_present password =
     (if list_ex (\<lambda>c. c \<in> set ascii_lowercase) password then {Lowercase} else {}) \<union>
     (if list_ex (\<lambda>c. c \<in> set ascii_uppercase) password then {Uppercase} else {}) \<union>
     (if list_ex (\<lambda>c. c \<in> set digits) password then {Digit} else {}) \<union>
     (if list_ex (\<lambda>c. c \<in> set punctuation) password then {Punctuation} else {})"

text \<open>
  The number of positions \<open>i\<close> of a keyboard row whose length-3 slice \<open>row[i:i+3]\<close>,
  lowered, occurs as a contiguous substring of the lowered password.
\<close>

definition slice_hits :: "(pystr \<Rightarrow> pystr) \<Rightarrow> pystr \<Rightarrow> pystr \<Rightarrow> nat" where
  "slice_hits ul password row =
     card {i. i + 3 \<le> length row \<and>
              (\<exists>pre suf. lower ul password = pre @ lower ul (take 3 (drop i row)) @ suf)}"

section \<open>Properties\<close>

subsection \<open>The character classes\<close>

lemma lowercase_iff: "c \<in> set ascii_lowercase \<longleftrightarrow> 97 \<le> c \<and> c \<le> 122"
  by (simp add: ascii_lowercase_def cps_def; arith)

lemma uppercase_iff: "c \<in> set ascii_uppercase \<longleftrightarrow> 65 \<le> c \<and> c \<le> 90"
  by (simp add: ascii_uppercase_def cps_def; arith)

lemma digits_iff: "c \<in> set digits \<longleftrightarrow> 48 \<le> c \<and> c \<le> 57"
  by (simp add: digits_def cps_def; arith)

lemma punctuation_iff:
  "c \<in> set punctuation \<longleftrightarrow>
     (33 \<le> c \<and> c \<le> 47) \<or> (58 \<le> c \<and> c \<le> 64) \<or> (91 \<le> c \<and> c \<le> 96) \<or> (123 \<le> c \<and> c \<le> 126)"
  by (simp add: punctuation_def cps_def; arith)

lemma length_punctuation: "length punctuation = 32"
  by (simp add: punctuation_def cps_def)

subsection \<open>Character distribution\<close>

lemma count_in_Nil: "count_in [] X = 0"
  by (simp add: count_in_def)

lemma count_in_Cons: "count_in (c # p) X = (if c \<in> set X then 1 else 0) + count_in p X"
  by (simp add: count_in_def)

lemma count_not_in_Nil: "count_not_in [] X = 0"
  by (simp add: count_not_in_def)

lemma count_not_in_Cons:
  "count_not_in (c # p) X = (if c \<in> set X then 0 else 1) + count_not_in p X"
  by (simp add: count_not_in_def)

text \<open>Every character is counted by exactly one of the five generator expressions.\<close>

lemma one_class:
  "(if c \<in> set ascii_lowercase then 1 else 0) + (if c \<in> set ascii_uppercase then 1 else 0)
   + (if c \<in> set digits then 1 else 0) + (if c \<in> set punctuation then 1 else 0)
   + (if c \<in> set (ascii_letters @ digits @ punctuation) then 0 else 1) = (1::int)"
  by (simp add: ascii_letters_def lowercase_iff uppercase_iff digits_iff punctuation_iff)

text \<open>
  C1: for every password (any list of code points, empty and non-ASCII included) the
  distribution has the five keys lowercase, uppercase, digits, special, other, and its five
  counts add up to the length of the password.
\<close>

theorem distribution_sum:
  "map fst (analyze_character_distribution p)
     = [''lowercase'', ''uppercase'', ''digits'', ''special'', ''other'']
   \<and> sum_list (map snd (analyze_character_distribution p)) = int (length p)"
proof (induction p)
  case Nil
  show ?case
    by (simp add: analyze_character_distribution_def count_in_Nil count_not_in_Nil)
next
  case (Cons c p)
  have "sum_list (map snd (analyze_character_distribution (c # p)))
      = ((if c \<in> set ascii_lowercase then 1 else 0)
         + (if c \<in> set ascii_uppercase then 1 else 0)
         + (if c \<in> set digits then 1 else 0) + (if c \<in> set punctuation then 1 else 0)
         + (if c \<in> set (ascii_letters @ digits @ punctuation) then 0 else 1))
        + sum_list (map snd (analyze_character_distribution p))"
    unfolding analyze_character_distribution_def count_in_Cons count_not_in_Cons by simp
  with Cons one_class[of c]
  have "sum_list (map snd (analyze_character_distribution (c # p))) = int (length (c # p))"
    by simp
  then show ?case by (simp add: analyze_character_distribution_def)
qed

subsection \<open>Entropy\<close>

lemma in_classes_present:
  "Lowercase \<in> classes_present p \<longleftrightarrow> list_ex (\<lambda>c. c \<in> set ascii_lowercase) p"
  "Uppercase \<in> classes_present p \<longleftrightarrow> list_ex (\<lambda>c. c \<in> set ascii_uppercase) p"
  "Digit \<in> classes_present p \<longleftrightarrow> list_ex (\<lambda>c. c \<in> set digits) p"
  "Punctuation \<in> classes_present p \<longleftrightarrow> list_ex (\<lambda>c. c \<in> set punctuation) p"
  by (simp_all add: classes_present_def)

text \<open>The alphabet size is a function of the set of classes present.\<close>

lemma char_set_size_classes:
  "char_set_size p =
     (let n = (if Lowercase \<in> classes_present p then 26 else 0)
            + (if Uppercase \<in> classes_present p then 26 else 0)
            + (if Digit \<in> classes_present p then 10 else 0)
            + (if Punctuation \<in> classes_present p then 32 else 0)
      in if n = 0 then 10 else n)"
  unfolding in_classes_present
  by (simp add: char_set_size_def Let_def length_punctuation)

lemma char_set_size_ge_10: "10 \<le> char_set_size p"
  by (simp add: char_set_size_def Let_def length_punctuation)

lemma char_set_size_cong:
  "classes_present p = classes_present q \<Longrightarrow> char_set_size p = char_set_size q"
  by (simp add: char_set_size_classes)

lemma log2_css_nonneg: "0 \<le> log 2 (real (char_set_size p))"
proof -
  have "1 \<le> real (char_set_size p)" using char_set_size_ge_10[of p] by simp
  then show ?thesis by simp
qed

lemma log2_10_le_css: "log 2 10 \<le> log 2 (real (char_set_size p))"
proof -
  have "10 \<le> real (char_set_size p)" using char_set_size_ge_10[of p] by simp
  then show ?thesis by simp
qed

lemma analyze_entropy_nonneg: "0 \<le> analyze_entropy p"
  using log2_css_nonneg[of p] by (simp add: analyze_entropy_def)

text \<open>
  C5: for every non-empty password none of whose characters is in any of the four
  recognised classes (ASCII lowercase, ASCII uppercase, digits, punctuation), the alphabet
  size is the fallback 10 and the entropy is \<open>log2(10)\<close> times the length.
\<close>

theorem entropy_fallback:
  assumes "p \<noteq> []"
    and "\<forall>c \<in> set p. c \<notin> set ascii_lowercase \<and> c \<notin> set ascii_uppercase
            \<and> c \<notin> set digits \<and> c \<notin> set punctuation"
  shows "char_set_size p = 10 \<and> analyze_entropy p = log 2 10 * real (length p)"
proof -
  from assms(2) have "char_set_size p = 10"
    by (simp add: char_set_size_def list_ex_iff)
  with assms(1) show ?thesis by (simp add: analyze_entropy_def)
qed

text \<open>The password of the two code points U+00E9 and U+65E5.\<close>

theorem entropy_fallback_witness:
  "[233, 26085] \<noteq> ([] :: pystr)
   \<and> list_all (\<lambda>c. c \<notin> set ascii_lowercase \<and> c \<notin> set ascii_uppercase
                    \<and> c \<notin> set digits \<and> c \<notin> set punctuation) [233, 26085]
   \<and> char_set_size [233, 26085] = 10
   \<and> analyze_entropy [233, 26085] = log 2 10 * 2"
  using entropy_fallback [of "[233, 26085]"]
  by (simp add: ascii_lowercase_def ascii_uppercase_def digits_def punctuation_def cps_def)

text \<open>
  C6: for passwords \<open>p\<close> and \<open>q\<close> with the same set of recognised character classes
  present, if \<open>q\<close> is at least as long as \<open>p\<close> then the entropy of \<open>q\<close> is at least the
  entropy of \<open>p\<close>.
\<close>

theorem entropy_monotone:
  assumes "classes_present p = classes_present q" and "length p \<le> length q"
  shows "analyze_entropy p \<le> analyze_entropy q"
proof (cases "p = []")
  case True
  then show ?thesis using analyze_entropy_nonneg[of q] by (simp add: analyze_entropy_def)
next
  case False
  with assms(2) have q: "q \<noteq> []" by auto
  have "log 2 (real (char_set_size q)) * real (length p)
      \<le> log 2 (real (char_set_size q)) * real (length q)"
    using assms(2) log2_css_nonneg[of q] by (intro mult_left_mono) simp_all
  then show ?thesis
    using False q char_set_size_cong[OF assms(1)] by (simp add: analyze_entropy_def)
qed

theorem entropy_monotone_witness:
  "classes_present (cps ''ab1'') = classes_present (cps ''b7a3'')
   \<and> length (cps ''ab1'') \<le> length (cps ''b7a3'')
   \<and> analyze_entropy (cps ''ab1'') \<le> analyze_entropy (cps ''b7a3'')"
  using entropy_monotone [of "cps ''ab1''" "cps ''b7a3''"]
  by (simp add: classes_present_def ascii_lowercase_def ascii_uppercase_def digits_def
        punctuation_def cps_def)

text \<open>
  C10: for every non-empty password the alphabet size is at least 10, so the entropy is
  at least \<open>log2(10)\<close> times the length, and it is strictly positive; passwords made of
  unrecognised characters only are included.
\<close>

theorem entropy_lower_bound:
  assumes "p \<noteq> []"
  shows "10 \<le> char_set_size p
       \<and> log 2 10 * real (length p) \<le> analyze_entropy p
       \<and> 0 < analyze_entropy p"
proof -
  have len: "0 < real (length p)" using assms by simp
  have b: "log 2 10 * real (length p) \<le> log 2 (real (char_set_size p)) * real (length p)"
    using log2_10_le_css[of p] len by (intro mult_right_mono) simp_all
  have "(0::real) < log 2 10" by simp
  with len have "0 < log 2 10 * real (length p)" by simp
  with b assms char_set_size_ge_10[of p] show ?thesis by (simp add: analyze_entropy_def)
qed

theorem entropy_lower_bound_witness:
  "[233] \<noteq> ([] :: pystr) \<and> 10 \<le> char_set_size [233]
       \<and> log 2 10 * real (length [233 :: codepoint]) \<le> analyze_entropy [233]
       \<and> 0 < analyze_entropy [233]"
  using entropy_lower_bound [of "[233]"] by simp

subsection \<open>Entropy of the empty password\<close>

text \<open>
  C4: the entropy estimator applied to the empty string returns exactly 0.
\<close>

theorem analyze_entropy_empty: "analyze_entropy [] = 0"
  by (simp add: analyze_entropy_def)

subsection \<open>Suggestions for the empty password\<close>

text \<open>
  C8: on the empty password the suggestion generator returns the one-element list with
  the fixed prompt, whatever the two dictionaries are. No key of either dictionary is
  read: the result is the same for dictionaries that lack every key, where reading one
  would raise \<open>KeyError\<close>.
\<close>

theorem get_suggestions_empty:
  "get_suggestions [] char_distribution patterns
     = Inr [''Enter a password to get suggestions'']"
  by (simp add: get_suggestions_def)

subsection \<open>Pattern detection\<close>

text \<open>\<open>str_in\<close> is substring containment of its first argument in its second.\<close>

lemma startswith_iff: "startswith s pat \<longleftrightarrow> (\<exists>suf. s = pat @ suf)"
  by (induction s pat rule: startswith.induct) auto

lemma str_in_iff: "str_in pat s \<longleftrightarrow> (\<exists>pre suf. s = pre @ pat @ suf)"
proof (induction s)
  case Nil
  show ?case by auto
next
  case (Cons c s)
  show ?case
  proof
    assume "str_in pat (c # s)"
    then consider "startswith (c # s) pat" | "str_in pat s" by auto
    then show "\<exists>pre suf. c # s = pre @ pat @ suf"
    proof cases
      case 1
      then obtain suf where "c # s = pat @ suf" by (auto simp: startswith_iff)
      then have "c # s = [] @ pat @ suf" by simp
      then show ?thesis by blast
    next
      case 2
      with Cons obtain pre suf where "s = pre @ pat @ suf" by auto
      then have "c # s = (c # pre) @ pat @ suf" by simp
      then show ?thesis by blast
    qed
  next
    assume "\<exists>pre suf. c # s = pre @ pat @ suf"
    then obtain pre suf where e: "c # s = pre @ pat @ suf" by auto
    show "str_in pat (c # s)"
    proof (cases pre)
      case Nil
      with e have "startswith (c # s) pat" by (auto simp: startswith_iff)
      then show ?thesis by simp
    next
      case (Cons a pre')
      with e have "s = pre' @ pat @ suf" by simp
      with Cons.IH have "str_in pat s" by auto
      then show ?thesis by simp
    qed
  qed
qed

lemma map_entry_twice:
  "AList.map_entry k f (AList.map_entry k g d) = AList.map_entry k (\<lambda>v. f (g v)) d"
  by (induction d) auto

lemma map_entry_ident: "AList.map_entry k (\<lambda>v. v) d = d"
  by (induction d) auto

lemma fold_dict_incr:
  "fold (\<lambda>x d. if P x then dict_incr k d else d) xs d
     = AList.map_entry k (\<lambda>v. v + int (length (filter P xs))) d"
proof (induction xs arbitrary: d)
  case Nil
  show ?case by (simp add: map_entry_ident)
next
  case (Cons x xs)
  show ?case
    by (simp add: Cons.IH dict_incr_def map_entry_twice add.assoc)
qed

lemma length_filter_upt: "length (filter P [0 ..< n]) = card {i. i < n \<and> P i}"
proof -
  have "{i. i < length [0..<n] \<and> P ([0..<n] ! i)} = {i. i < n \<and> P i}"
    by auto
  then show ?thesis by (simp add: length_filter_conv_card)
qed

lemma scan_row_eq:
  "scan_row ul password row d
     = AList.map_entry ''keyboard_patterns'' (\<lambda>v. v + int (slice_hits ul password row)) d"
proof -
  have "{i. i < nat (int (length row) - 2) \<and> str_in (lower ul (slice row i (i + 3))) (lower ul password)}
      = {i. i + 3 \<le> length row \<and>
              (\<exists>pre suf. lower ul password = pre @ lower ul (take 3 (drop i row)) @ suf)}"
    by (auto simp: str_in_iff slice_def)
  then show ?thesis
    unfolding scan_row_def py_range_def Let_def fold_dict_incr length_filter_upt slice_hits_def
    by simp
qed

lemma fold_map_entry_add:
  "fold (\<lambda>x. AList.map_entry k (\<lambda>v. v + f x)) xs d
     = AList.map_entry k (\<lambda>v. v + (\<Sum>x\<leftarrow>xs. f x)) (d :: pydict)"
proof (induction xs arbitrary: d)
  case Nil
  show ?case by (simp add: map_entry_ident)
next
  case (Cons x xs)
  show ?case by (simp add: Cons.IH map_entry_twice add.assoc)
qed

lemma scan_keyboard_eq:
  "scan_keyboard ul password d
     = AList.map_entry ''keyboard_patterns''
         (\<lambda>v. v + (\<Sum>row\<leftarrow>keyboard_rows. int (slice_hits ul password row))) d"
proof -
  have "scan_keyboard ul password d
      = fold (\<lambda>row. AList.map_entry ''keyboard_patterns''
                 (\<lambda>v. v + int (slice_hits ul password row))) keyboard_rows d"
    unfolding scan_keyboard_def scan_row_eq ..
  then show ?thesis by (simp only: fold_map_entry_add)
qed

lemma find_patterns_keyboard:
  "getitem (find_patterns ul password) ''keyboard_patterns''
     = Inr (\<Sum>row\<leftarrow>keyboard_rows. int (slice_hits ul password row))"
  unfolding find_patterns_def Let_def scan_keyboard_eq
    scan_sequential_def scan_repeated_def scan_common_def fold_dict_incr
  by (simp add: getitem_def)


text \<open>
  C3: the keyboard-pattern count is, summed over the three fixed rows, the number of
  positions \<open>i\<close> of the row whose length-3 slice \<open>row[i:i+3]\<close>, lowered, occurs as a
  contiguous substring of the lowered password: one increment per such slice. The
  containment tested is slice-in-password: the password \<open>q\<close>, which is contained in a
  row, counts 0, and the password \<open>1QwErTy!\<close>, which is contained in no row, counts the
  four slices \<open>qwe\<close>, \<open>wer\<close>, \<open>ert\<close>, \<open>rty\<close>.
\<close>

theorem keyboard_patterns_count:
  "getitem (find_patterns ul password) ''keyboard_patterns''
     = Inr (\<Sum>row\<leftarrow>[cps ''qwertyuiop'', cps ''asdfghjkl'', cps ''zxcvbnm''].
              int (card {i. i + 3 \<le> length row \<and>
                (\<exists>pre suf. lower ul password = pre @ lower ul (take 3 (drop i row)) @ suf)}))
   \<and> getitem (find_patterns ul (cps ''q'')) ''keyboard_patterns'' = Inr 0
   \<and> getitem (find_patterns ul (cps ''1QwErTy!'')) ''keyboard_patterns'' = Inr 4"
proof -
  have "getitem (find_patterns ul password) ''keyboard_patterns''
     = Inr (\<Sum>row\<leftarrow>[cps ''qwertyuiop'', cps ''asdfghjkl'', cps ''zxcvbnm''].
              int (card {i. i + 3 \<le> length row \<and>
                (\<exists>pre suf. lower ul password = pre @ lower ul (take 3 (drop i row)) @ suf)}))"
    unfolding find_patterns_keyboard keyboard_rows_def slice_hits_def ..
  moreover have "getitem (find_patterns ul (cps ''q'')) ''keyboard_patterns'' = Inr 0"
    by code_simp
  moreover have "getitem (find_patterns ul (cps ''1QwErTy!'')) ''keyboard_patterns'' = Inr 4"
    by code_simp
  ultimately show ?thesis by blast
qed

text \<open>
  C7: the repeated-run count of \<open>aaa\<close>, the sequential-run count of \<open>abc\<close>, the
  keyboard-substring count of \<open>qwe\<close> and the common-word count of \<open>mypassword1\<close> are each
  at least 1.
\<close>

theorem pattern_sanity:
  "(\<exists>v. getitem (find_patterns ul (cps ''aaa'')) ''repeated_chars'' = Inr v \<and> 1 \<le> v)
   \<and> (\<exists>v. getitem (find_patterns ul (cps ''abc'')) ''sequential_chars'' = Inr v \<and> 1 \<le> v)
   \<and> (\<exists>v. getitem (find_patterns ul (cps ''qwe'')) ''keyboard_patterns'' = Inr v \<and> 1 \<le> v)
   \<and> (\<exists>v. getitem (find_patterns ul (cps ''mypassword1'')) ''common_words'' = Inr v \<and> 1 \<le> v)"
proof -
  have "getitem (find_patterns ul (cps ''aaa'')) ''repeated_chars'' = Inr 1"
    by code_simp
  moreover have "getitem (find_patterns ul (cps ''abc'')) ''sequential_chars'' = Inr 1"
    by code_simp
  moreover have "getitem (find_patterns ul (cps ''qwe'')) ''keyboard_patterns'' = Inr 1"
    by code_simp
  moreover have "getitem (find_patterns ul (cps ''mypassword1'')) ''common_words'' = Inr 1"
    by code_simp
  ultimately show ?thesis by simp
qed

subsection \<open>Suggestions when no rule fires\<close>

text \<open>
  C9: for every password of length at least 12, a distribution whose counts for
  lowercase, uppercase, digits and special are strictly positive and pattern counts that
  are all zero, the suggestion generator returns the one-element list with the fixed
  "looks good" string.
\<close>

theorem get_suggestions_looks_good:
  assumes "12 \<le> length password"
    and "getitem char_distribution ''lowercase'' = Inr l" and "0 < l"
    and "getitem char_distribution ''uppercase'' = Inr u" and "0 < u"
    and "getitem char_distribution ''digits'' = Inr d" and "0 < d"
    and "getitem char_distribution ''special'' = Inr s" and "0 < s"
    and "getitem patterns ''sequential_chars'' = Inr 0"
    and "getitem patterns ''repeated_chars'' = Inr 0"
    and "getitem patterns ''keyboard_patterns'' = Inr 0"
    and "getitem patterns ''common_words'' = Inr 0"
  shows "get_suggestions password char_distribution patterns
     = Inr [''Your password looks good! Remember to use different passwords for different accounts.'']"
proof -
  from assms(1) have "password \<noteq> []" by auto
  with assms show ?thesis
    by (simp add: get_suggestions_def bind_def)
qed

text \<open>
  A 16-character password with all four classes and no pattern, with the dictionaries
  that the two analyzers compute for it.
\<close>

theorem get_suggestions_looks_good_witness:
  "\<forall>ul. 12 \<le> length (cps ''aB3$eF7&hJ1!mN5@'')
    \<and> getitem (analyze_character_distribution (cps ''aB3$eF7&hJ1!mN5@'')) ''lowercase'' = Inr 4 \<and> (0::int) < 4
    \<and> getitem (analyze_character_distribution (cps ''aB3$eF7&hJ1!mN5@'')) ''uppercase'' = Inr 4 \<and> (0::int) < 4
    \<and> getitem (analyze_character_distribution (cps ''aB3$eF7&hJ1!mN5@'')) ''digits'' = Inr 4 \<and> (0::int) < 4
    \<and> getitem (analyze_character_distribution (cps ''aB3$eF7&hJ1!mN5@'')) ''special'' = Inr 4 \<and> (0::int) < 4
    \<and> getitem (find_patterns ul (cps ''aB3$eF7&hJ1!mN5@'')) ''sequential_chars'' = Inr 0
    \<and> getitem (find_patterns ul (cps ''aB3$eF7&hJ1!mN5@'')) ''repeated_chars'' = Inr 0
    \<and> getitem (find_patterns ul (cps ''aB3$eF7&hJ1!mN5@'')) ''keyboard_patterns'' = Inr 0
    \<and> getitem (find_patterns ul (cps ''aB3$eF7&hJ1!mN5@'')) ''common_words'' = Inr 0
    \<and> get_suggestions (cps ''aB3$eF7&hJ1!mN5@'')
          (analyze_character_distribution (cps ''aB3$eF7&hJ1!mN5@''))
          (find_patterns ul (cps ''aB3$eF7&hJ1!mN5@''))
       = Inr [''Your password looks good! Remember to use different passwords for different accounts.'']"
proof
  fix ul
  let ?p = "cps ''aB3$eF7&hJ1!mN5@''"
  have h0: "12 \<le> length ?p" by (simp add: cps_def)
  have cd: "analyze_character_distribution ?p
      = [(''lowercase'', 4), (''uppercase'', 4), (''digits'', 4), (''special'', 4),
         (''other'', 0)]"
    by code_simp
  have fp: "find_patterns ul ?p
      = [(''sequential_chars'', 0), (''repeated_chars'', 0), (''keyboard_patterns'', 0),
         (''common_words'', 0)]"
    by code_simp
  have h1: "getitem (analyze_character_distribution ?p) ''lowercase'' = Inr 4"
    unfolding cd by (simp add: getitem_def)
  have h2: "getitem (analyze_character_distribution ?p) ''uppercase'' = Inr 4"
    unfolding cd by (simp add: getitem_def)
  have h3: "getitem (analyze_character_distribution ?p) ''digits'' = Inr 4"
    unfolding cd by (simp add: getitem_def)
  have h4: "getitem (analyze_character_distribution ?p) ''special'' = Inr 4"
    unfolding cd by (simp add: getitem_def)
  have h5: "getitem (find_patterns ul ?p) ''sequential_chars'' = Inr 0"
    unfolding fp by (simp add: getitem_def)
  have h6: "getitem (find_patterns ul ?p) ''repeated_chars'' = Inr 0"
    unfolding fp by (simp add: getitem_def)
  have h7: "getitem (find_patterns ul ?p) ''keyboard_patterns'' = Inr 0"
    unfolding fp by (simp add: getitem_def)
  have h8: "getitem (find_patterns ul ?p) ''common_words'' = Inr 0"
    unfolding fp by (simp add: getitem_def)
  have pos: "(0::int) < 4" by simp
  note r = get_suggestions_looks_good [OF h0 h1 pos h2 pos h3 pos h4 pos h5 h6 h7 h8]
  from h0 h1 h2 h3 h4 h5 h6 h7 h8 r pos
  show "12 \<le> length ?p
    \<and> getitem (analyze_character_distribution ?p) ''lowercase'' = Inr 4 \<and> (0::int) < 4
    \<and> getitem (analyze_character_distribution ?p) ''uppercase'' = Inr 4 \<and> (0::int) < 4
    \<and> getitem (analyze_character_distribution ?p) ''digits'' = Inr 4 \<and> (0::int) < 4
    \<and> getitem (analyze_character_distribution ?p) ''special'' = Inr 4 \<and> (0::int) < 4
    \<and> getitem (find_patterns ul ?p) ''sequential_chars'' = Inr 0
    \<and> getitem (find_patterns ul ?p) ''repeated_chars'' = Inr 0
    \<and> getitem (find_patterns ul ?p) ''keyboard_patterns'' = Inr 0
    \<and> getitem (find_patterns ul ?p) ''common_words'' = Inr 0
    \<and> get_suggestions ?p (analyze_character_distribution ?p) (find_patterns ul ?p)
       = Inr [''Your password looks good! Remember to use different passwords for different accounts.'']"
    by blast
qed

subsection \<open>Crack time\<close>

text \<open>
  Below 1024 bits the estimator returns the unit selected for \<open>2 ^ entropy / 10 ^ 10\<close>
  seconds, and the selection follows the thresholds 60, 3600, 86400 and 31536000.
\<close>

lemma crack_time_in_range:
  "entropy < 1024 \<Longrightarrow>
     calculate_crack_time entropy = Inr (select_unit (2 powr entropy / 10000000000))"
  by (simp add: calculate_crack_time_def pow2_def bind_def)

lemma select_unit_thresholds:
  "seconds < 60 \<Longrightarrow> select_unit seconds = (seconds, ''seconds'')"
  "60 \<le> seconds \<Longrightarrow> seconds < 3600 \<Longrightarrow> select_unit seconds = (seconds / 60, ''minutes'')"
  "3600 \<le> seconds \<Longrightarrow> seconds < 86400 \<Longrightarrow> select_unit seconds = (seconds / 3600, ''hours'')"
  "86400 \<le> seconds \<Longrightarrow> seconds < 31536000 \<Longrightarrow> select_unit seconds = (seconds / 86400, ''days'')"
  "31536000 \<le> seconds \<Longrightarrow> select_unit seconds = (seconds / 31536000, ''years'')"
  by (simp_all add: select_unit_def)

lemma select_unit_examples:
  "snd (select_unit 30) = ''seconds''" "snd (select_unit 120) = ''minutes''"
  "snd (select_unit 7200) = ''hours''" "snd (select_unit 200000) = ''days''"
  "snd (select_unit 40000000) = ''years''"
  by (simp_all add: select_unit_def)

lemma char_set_size_punct_only: "char_set_size (replicate 205 33) = 32"
proof -
  have "set (replicate 205 (33::nat)) = {33}" by simp
  then show ?thesis
    by (simp add: char_set_size_def list_ex_iff lowercase_iff uppercase_iff digits_iff
          punctuation_iff length_punctuation)
qed

lemma log2_32: "log 2 (32::real) = 5"
proof -
  have "(32::real) = 2 ^ 5" by simp
  then show ?thesis by (simp only: log_pow_cancel)
qed

text \<open>
  C2: given the entropy the estimator computes \<open>2 ^ entropy / 10 ^ 10\<close> seconds and
  selects the unit by the fixed thresholds, every value from 31536000 seconds on being
  given in years with no upper cap. From 1024 bits on the code does not get that far:
  \<open>2 ** entropy\<close> leaves the range of a float and raises. A password of 205 exclamation
  marks has alphabet size 32 and entropy \<open>5 * 205 = 1025\<close> bits, and the estimator
  applied to that entropy raises \<open>OverflowError\<close> instead of returning years.
\<close>

theorem crack_time_overflow:
  "analyze_entropy (replicate 205 33) = 1025
   \<and> calculate_crack_time (analyze_entropy (replicate 205 33)) = Inl OverflowError"
proof -
  have e: "analyze_entropy (replicate 205 33) = 1025"
    by (simp add: analyze_entropy_def char_set_size_punct_only log2_32)
  then show ?thesis by (simp add: calculate_crack_time_def pow2_def bind_def)
qed

end
